theory Spec2Isabelle
  imports Complex_Main "HOL-Library.Sublist"
begin

section \<open>Product catalogue: data model\<close>

text \<open>
  The source is a fragment of a browser script: a global array \<^verbatim>\<open>products\<close>, two lines
  from the inside of \<^verbatim>\<open>renderProducts\<close> (the image source and the \<^verbatim>\<open><img>\<close> markup),
  and the two branches of a click handler (edit and delete).

  A product is the object literal of the source. \<^verbatim>\<open>name\<close> and \<^verbatim>\<open>imageUrl\<close> may be
  missing from the object, so they are optional; \<^verbatim>\<open>attributes\<close> is an object literal whose
  keys keep their insertion order, an association list here. \<^verbatim>\<open>price\<close> is a JavaScript
  number that nothing in the fragment reads; it is a rational here. The field \<^verbatim>\<open>id\<close> is
  called \<open>id_p\<close>, since \<open>id\<close> is the identity function of HOL.
\<close>

record product =
  id_p :: string
  name :: "string option"
  categoryId :: string
  price :: rat
  imageUrl :: "string option"
  attributes :: "(string \<times> string) list"

text \<open>
  JavaScript truthiness of an optional string, as \<^verbatim>\<open>&&\<close>, \<^verbatim>\<open>||\<close> and \<^verbatim>\<open>?:\<close> test it: a
  missing value and the empty string are falsy, every other string is truthy.
\<close>

fun truthy :: "string option \<Rightarrow> bool" where
  "truthy None = False"
| "truthy (Some s) = (s \<noteq> [])"

subsection \<open>URL validation\<close>

text \<open>
  Modelled from the spec: the definition of \<^verbatim>\<open>isValidUrl\<close> is missing from the source, which
  only calls it. The spec: "true iff the string parses as a structurally well-formed URL
  (scheme + authority/path per standard URL grammar); no network check, no reachability
  check", and "must not raise on malformed input; malformed input simply yields false".

  The standard grammar is the one of RFC 3986 (STD 66), Appendix A, rule \<^verbatim>\<open>URI\<close>. The
  grammar is regular, so it is written as a regular expression, rule by rule, and the
  validator runs the expression over the string.
\<close>

datatype rexp = Zero | One | Atom "char \<Rightarrow> bool" | Plus rexp rexp | Times rexp rexp | Star rexp

definition conc :: "string set \<Rightarrow> string set \<Rightarrow> string set" where
  "conc A B = {u @ v | u v. u \<in> A \<and> v \<in> B}"

inductive_set star :: "string set \<Rightarrow> string set" for A :: "string set" where
  star_empty: "[] \<in> star A"
| star_step: "u \<in> A \<Longrightarrow> v \<in> star A \<Longrightarrow> u @ v \<in> star A"

text \<open>The strings an expression denotes.\<close>

fun lang :: "rexp \<Rightarrow> string set" where
  "lang Zero = {}"
| "lang One = {[]}"
| "lang (Atom P) = {[c] | c. P c}"
| "lang (Plus r s) = lang r \<union> lang s"
| "lang (Times r s) = conc (lang r) (lang s)"
| "lang (Star r) = star (lang r)"

text \<open>
  Running an expression: whether it accepts the empty string, and what is left of it after
  one character. \<open>plus_r\<close> and \<open>times_r\<close> build a sum and a product and drop the parts
  that can no longer match.
\<close>

fun nullable :: "rexp \<Rightarrow> bool" where
  "nullable Zero = False"
| "nullable One = True"
| "nullable (Atom P) = False"
| "nullable (Plus r s) = (nullable r \<or> nullable s)"
| "nullable (Times r s) = (nullable r \<and> nullable s)"
| "nullable (Star r) = True"

fun plus_r :: "rexp \<Rightarrow> rexp \<Rightarrow> rexp" where
  "plus_r Zero s = s"
| "plus_r r Zero = r"
| "plus_r r s = Plus r s"

fun times_r :: "rexp \<Rightarrow> rexp \<Rightarrow> rexp" where
  "times_r Zero s = Zero"
| "times_r r Zero = Zero"
| "times_r One s = s"
| "times_r r One = r"
| "times_r r s = Times r s"

fun deriv :: "char \<Rightarrow> rexp \<Rightarrow> rexp" where
  "deriv c Zero = Zero"
| "deriv c One = Zero"
| "deriv c (Atom P) = (if P c then One else Zero)"
| "deriv c (Plus r s) = plus_r (deriv c r) (deriv c s)"
| "deriv c (Times r s) =
     (if nullable r then plus_r (times_r (deriv c r) s) (deriv c s)
      else times_r (deriv c r) s)"
| "deriv c (Star r) = times_r (deriv c r) (Star r)"

fun matches :: "rexp \<Rightarrow> string \<Rightarrow> bool" where
  "matches r [] = nullable r"
| "matches r (c # cs) = matches (deriv c r) cs"

text \<open>
  The operators of ABNF: an optional part \<^verbatim>\<open>[r]\<close>, one or more \<^verbatim>\<open>1*r\<close>, exactly \<open>n\<close> copies
  \<^verbatim>\<open>n r\<close>, at most \<open>n\<close> copies \<^verbatim>\<open>*n r\<close>, alternatives and sequences, one character, a
  character out of a few.
\<close>

definition optional :: "rexp \<Rightarrow> rexp" where
  "optional r = Plus One r"

definition many1 :: "rexp \<Rightarrow> rexp" where
  "many1 r = Times r (Star r)"

fun exactly :: "nat \<Rightarrow> rexp \<Rightarrow> rexp" where
  "exactly 0 r = One"
| "exactly (Suc n) r = Times r (exactly n r)"

definition at_most :: "nat \<Rightarrow> rexp \<Rightarrow> rexp" where
  "at_most n r = exactly n (optional r)"

definition alts :: "rexp list \<Rightarrow> rexp" where
  "alts rs = foldr Plus rs Zero"

definition seqs :: "rexp list \<Rightarrow> rexp" where
  "seqs rs = foldr Times rs One"

definition lit :: "char \<Rightarrow> rexp" where
  "lit c = Atom (\<lambda>d. d = c)"

definition one_of :: "string \<Rightarrow> char \<Rightarrow> bool" where
  "one_of cs c = (c \<in> set cs)"

text \<open>
  The character classes. Literal strings of ABNF match either case, so \<^verbatim>\<open>HEXDIG\<close> has the
  small letters too.
\<close>

definition is_ALPHA :: "char \<Rightarrow> bool" where
  "is_ALPHA c = (c \<in> set ''ABCDEFGHIJKLMNOPQRSTUVWXYZabcdefghijklmnopqrstuvwxyz'')"

definition is_DIGIT :: "char \<Rightarrow> bool" where
  "is_DIGIT c = (c \<in> set ''0123456789'')"

definition is_HEXDIG :: "char \<Rightarrow> bool" where
  "is_HEXDIG c = (c \<in> set ''0123456789ABCDEFabcdef'')"

definition is_sub_delim :: "char \<Rightarrow> bool" where
  "is_sub_delim c = (c \<in> set (''!$&'' @ [CHR 0x27] @ ''()*+,;=''))"

definition ALPHA :: rexp where
  "ALPHA = Atom is_ALPHA"

definition DIGIT :: rexp where
  "DIGIT = Atom is_DIGIT"

definition HEXDIG :: rexp where
  "HEXDIG = Atom is_HEXDIG"

text \<open>
  The rules of RFC 3986, from the characters up to \<^verbatim>\<open>URI\<close>:
  \<^verbatim>\<open>unreserved = ALPHA / DIGIT / "-" / "." / "_" / "~"\<close>,
  \<^verbatim>\<open>sub-delims = "!" / "$" / "&" / "'" / "(" / ")" / "*" / "+" / "," / ";" / "="\<close>,
  \<^verbatim>\<open>pct-encoded = "%" HEXDIG HEXDIG\<close>,
  \<^verbatim>\<open>pchar = unreserved / pct-encoded / sub-delims / ":" / "@"\<close>,
  \<^verbatim>\<open>query = *( pchar / "/" / "?" )\<close>, \<^verbatim>\<open>fragment = *( pchar / "/" / "?" )\<close>.
\<close>

definition unreserved :: rexp where
  "unreserved = alts [ALPHA, DIGIT, Atom (one_of ''-._~'')]"

definition sub_delims :: rexp where
  "sub_delims = Atom is_sub_delim"

definition pct_encoded :: rexp where
  "pct_encoded = seqs [lit CHR ''%'', HEXDIG, HEXDIG]"

definition pchar :: rexp where
  "pchar = alts [unreserved, pct_encoded, sub_delims, Atom (one_of '':@'')]"

definition uri_query :: rexp where
  "uri_query = Star (alts [pchar, Atom (one_of ''/?'')])"

definition uri_fragment :: rexp where
  "uri_fragment = Star (alts [pchar, Atom (one_of ''/?'')])"

text \<open>
  \<^verbatim>\<open>segment = *pchar\<close>, \<^verbatim>\<open>segment-nz = 1*pchar\<close>,
  \<^verbatim>\<open>path-abempty = *( "/" segment )\<close>,
  \<^verbatim>\<open>path-absolute = "/" [ segment-nz *( "/" segment ) ]\<close>,
  \<^verbatim>\<open>path-rootless = segment-nz *( "/" segment )\<close>, \<^verbatim>\<open>path-empty = 0<pchar>\<close>.
\<close>

definition segment :: rexp where
  "segment = Star pchar"

definition segment_nz :: rexp where
  "segment_nz = many1 pchar"

definition path_abempty :: rexp where
  "path_abempty = Star (Times (lit CHR ''/'') segment)"

definition path_absolute :: rexp where
  "path_absolute =
     Times (lit CHR ''/'') (optional (Times segment_nz (Star (Times (lit CHR ''/'') segment))))"

definition path_rootless :: rexp where
  "path_rootless = Times segment_nz (Star (Times (lit CHR ''/'') segment))"

definition path_empty :: rexp where
  "path_empty = One"

text \<open>
  \<^verbatim>\<open>dec-octet = DIGIT / %x31-39 DIGIT / "1" 2DIGIT / "2" %x30-34 DIGIT / "25" %x30-35\<close>,
  \<^verbatim>\<open>IPv4address = dec-octet "." dec-octet "." dec-octet "." dec-octet\<close>,
  \<^verbatim>\<open>h16 = 1*4HEXDIG\<close>, \<^verbatim>\<open>ls32 = ( h16 ":" h16 ) / IPv4address\<close>.
\<close>

definition dec_octet :: rexp where
  "dec_octet =
     alts [DIGIT,
           Times (Atom (one_of ''123456789'')) DIGIT,
           seqs [lit CHR ''1'', DIGIT, DIGIT],
           seqs [lit CHR ''2'', Atom (one_of ''01234''), DIGIT],
           seqs [lit CHR ''2'', lit CHR ''5'', Atom (one_of ''012345'')]]"

definition IPv4address :: rexp where
  "IPv4address =
     seqs [dec_octet, lit CHR ''.'', dec_octet, lit CHR ''.'', dec_octet, lit CHR ''.'',
           dec_octet]"

definition h16 :: rexp where
  "h16 = Times HEXDIG (at_most 3 HEXDIG)"

definition ls32 :: rexp where
  "ls32 = Plus (seqs [h16, lit CHR '':'', h16]) IPv4address"

text \<open>
  The nine alternatives of \<^verbatim>\<open>IPv6address\<close>, in the order of the RFC; \<open>h16_colon\<close> is
  \<^verbatim>\<open>( h16 ":" )\<close> and \<open>double_colon\<close> is \<^verbatim>\<open>"::"\<close>:
  \<^verbatim>\<open>6( h16 ":" ) ls32\<close>,
  \<^verbatim>\<open>"::" 5( h16 ":" ) ls32\<close>,
  \<^verbatim>\<open>[ h16 ] "::" 4( h16 ":" ) ls32\<close>,
  \<^verbatim>\<open>[ *1( h16 ":" ) h16 ] "::" 3( h16 ":" ) ls32\<close>,
  \<^verbatim>\<open>[ *2( h16 ":" ) h16 ] "::" 2( h16 ":" ) ls32\<close>,
  \<^verbatim>\<open>[ *3( h16 ":" ) h16 ] "::" h16 ":" ls32\<close>,
  \<^verbatim>\<open>[ *4( h16 ":" ) h16 ] "::" ls32\<close>,
  \<^verbatim>\<open>[ *5( h16 ":" ) h16 ] "::" h16\<close>,
  \<^verbatim>\<open>[ *6( h16 ":" ) h16 ] "::"\<close>.
\<close>

definition h16_colon :: rexp where
  "h16_colon = Times h16 (lit CHR '':'')"

definition double_colon :: rexp where
  "double_colon = Times (lit CHR '':'') (lit CHR '':'')"

definition IPv6address :: rexp where
  "IPv6address =
     alts [seqs [exactly 6 h16_colon, ls32],
           seqs [double_colon, exactly 5 h16_colon, ls32],
           seqs [optional h16, double_colon, exactly 4 h16_colon, ls32],
           seqs [optional (Times (at_most 1 h16_colon) h16), double_colon,
                 exactly 3 h16_colon, ls32],
           seqs [optional (Times (at_most 2 h16_colon) h16), double_colon,
                 exactly 2 h16_colon, ls32],
           seqs [optional (Times (at_most 3 h16_colon) h16), double_colon, h16_colon, ls32],
           seqs [optional (Times (at_most 4 h16_colon) h16), double_colon, ls32],
           seqs [optional (Times (at_most 5 h16_colon) h16), double_colon, h16],
           seqs [optional (Times (at_most 6 h16_colon) h16), double_colon]]"

text \<open>
  \<^verbatim>\<open>IPvFuture = "v" 1*HEXDIG "." 1*( unreserved / sub-delims / ":" )\<close>,
  \<^verbatim>\<open>IP-literal = "[" ( IPv6address / IPvFuture ) "]"\<close>,
  \<^verbatim>\<open>reg-name = *( unreserved / pct-encoded / sub-delims )\<close>,
  \<^verbatim>\<open>host = IP-literal / IPv4address / reg-name\<close>, \<^verbatim>\<open>port = *DIGIT\<close>,
  \<^verbatim>\<open>userinfo = *( unreserved / pct-encoded / sub-delims / ":" )\<close>,
  \<^verbatim>\<open>authority = [ userinfo "@" ] host [ ":" port ]\<close>.
\<close>

definition IPvFuture :: rexp where
  "IPvFuture =
     seqs [Atom (one_of ''vV''), many1 HEXDIG, lit CHR ''.'',
           many1 (alts [unreserved, sub_delims, lit CHR '':''])]"

definition IP_literal :: rexp where
  "IP_literal = seqs [lit CHR ''['', Plus IPv6address IPvFuture, lit CHR '']'']"

definition reg_name :: rexp where
  "reg_name = Star (alts [unreserved, pct_encoded, sub_delims])"

definition uri_host :: rexp where
  "uri_host = alts [IP_literal, IPv4address, reg_name]"

definition uri_port :: rexp where
  "uri_port = Star DIGIT"

definition userinfo :: rexp where
  "userinfo = Star (alts [unreserved, pct_encoded, sub_delims, lit CHR '':''])"

definition authority :: rexp where
  "authority =
     seqs [optional (Times userinfo (lit CHR ''@'')), uri_host,
           optional (Times (lit CHR '':'') uri_port)]"

text \<open>
  \<^verbatim>\<open>scheme = ALPHA *( ALPHA / DIGIT / "+" / "-" / "." )\<close>,
  \<^verbatim>\<open>hier-part = "//" authority path-abempty / path-absolute / path-rootless / path-empty\<close>,
  \<^verbatim>\<open>URI = scheme ":" hier-part [ "?" query ] [ "#" fragment ]\<close>.
\<close>

definition uri_scheme :: rexp where
  "uri_scheme = Times ALPHA (Star (alts [ALPHA, DIGIT, Atom (one_of ''+-.'')]))"

definition hier_part :: rexp where
  "hier_part =
     alts [seqs [lit CHR ''/'', lit CHR ''/'', authority, path_abempty],
           path_absolute, path_rootless, path_empty]"

definition URI :: rexp where
  "URI =
     seqs [uri_scheme, lit CHR '':'', hier_part, optional (Times (lit CHR ''?'') uri_query),
           optional (Times (lit CHR ''#'') uri_fragment)]"

text \<open>
  Modelled from the spec: \<^verbatim>\<open>isValidUrl\<close>, missing from the source: true exactly when the
  string is a \<^verbatim>\<open>URI\<close> of the grammar, false for every other string.
\<close>

definition isValidUrl :: "string \<Rightarrow> bool" where
  "isValidUrl s = matches URI s"


subsection \<open>The image markup of a product card\<close>

definition noImagePlaceholder :: string where
  "noImagePlaceholder = ''https://placehold.co/100x100/CCCCCC/666666?text=No+Image''"

definition imageErrorPlaceholder :: string where
  "imageErrorPlaceholder = ''https://placehold.co/150x100/CCCCCC/666666?text=Image+Error''"

text \<open>
  \<^verbatim>\<open>product.imageUrl && isValidUrl(product.imageUrl) ? product.imageUrl : `...No+Image`\<close>.
  The definition of \<^verbatim>\<open>isValidUrl\<close> is not part of the fragment, so the validator is a
  parameter \<open>valid\<close>; \<^verbatim>\<open>&&\<close> does not call it on a falsy \<^verbatim>\<open>imageUrl\<close>.
\<close>

definition resolveImageUrl :: "(string \<Rightarrow> bool) \<Rightarrow> product \<Rightarrow> string" where
  "resolveImageUrl valid p =
     (case imageUrl p of
        None \<Rightarrow> noImagePlaceholder
      | Some u \<Rightarrow> if truthy (Some u) \<and> valid u then u else noImagePlaceholder)"

text \<open>\<^verbatim>\<open>product.name || 'Product'\<close>\<close>

definition altText :: "product \<Rightarrow> string" where
  "altText p =
     (case name p of
        None \<Rightarrow> ''Product''
      | Some n \<Rightarrow> if truthy (Some n) then n else ''Product'')"

text \<open>
  The markup of the source, a template literal: the two values are spliced in as they
  are, between double quotes.
\<close>

definition dq :: string where
  "dq = [CHR 0x22]"

definition imgMarkup :: "string \<Rightarrow> string \<Rightarrow> string" where
  "imgMarkup imageSrc altLabel =
     ''<img src='' @ dq @ imageSrc @ dq @ '' alt='' @ dq @ altLabel @ dq @
     '' class='' @ dq @ ''product-image'' @ dq @
     '' onerror='' @ dq @ ''this.onerror=null;this.src='' @ [CHR 0x27] @
     imageErrorPlaceholder @ [CHR 0x27] @ '';'' @ dq @ ''>''"

subsection \<open>What the browser makes of the markup\<close>

text \<open>
  The source assigns the markup to \<^verbatim>\<open>innerHTML\<close>, so the image element of a card is what
  the HTML parser reads from that string, not the two values that were spliced in. The
  template does no escaping: a double quote in a value ends the attribute, and a character
  reference in it is decoded.

  The definitions of this subsection follow the tokenizer of the HTML standard (section
  "Tokenization": the states for a start tag and its attributes), on strings of bytes in
  UTF-8. Where a state of the standard hands the current character over to another state
  ("reconsume"), the equation here takes the step of that other state at once, so that
  every step consumes a character.

  A result \<open>Inl\<close> means that there is no element to speak of: \<open>EofInTag\<close> is the standard's
  end of input inside a tag, which drops the tag; \<open>NotAStartTag\<close> is markup that does not
  begin with a start tag. The two other values mark the limits of the model:
  \<open>ReferenceNotModelled\<close> a character reference that is not one of the five named ones
  below, \<open>HandlerNotModelled\<close> an event handler that is not made of the two assignments the
  source uses.
\<close>

datatype parse_fail = EofInTag | NotAStartTag | ReferenceNotModelled | HandlerNotModelled

text \<open>
  ASCII whitespace of the tokenizer (tab, line feed, form feed, space; carriage returns are
  gone before it runs), ASCII letters and digits, and the lower-case form of a letter.
\<close>

definition is_space :: "char \<Rightarrow> bool" where
  "is_space c = (c = CHR 0x09 \<or> c = CHR 0x0A \<or> c = CHR 0x0C \<or> c = CHR 0x20)"

definition is_alnum :: "char \<Rightarrow> bool" where
  "is_alnum c =
     (c \<in> set ''ABCDEFGHIJKLMNOPQRSTUVWXYZabcdefghijklmnopqrstuvwxyz0123456789'')"

definition is_letter :: "char \<Rightarrow> bool" where
  "is_letter c = (c \<in> set ''ABCDEFGHIJKLMNOPQRSTUVWXYZabcdefghijklmnopqrstuvwxyz'')"

definition lower :: "char \<Rightarrow> char" where
  "lower c =
     (case map_of (zip ''ABCDEFGHIJKLMNOPQRSTUVWXYZ'' ''abcdefghijklmnopqrstuvwxyz'') c of
        None \<Rightarrow> c
      | Some d \<Rightarrow> d)"

text \<open>U+FFFD, which replaces a NUL, in UTF-8.\<close>

definition replacement :: string where
  "replacement = [CHR 0xEF, CHR 0xBF, CHR 0xBD]"

text \<open>
  The input stream is preprocessed: a carriage return followed by a line feed becomes one
  line feed, and any other carriage return becomes a line feed.
\<close>

fun normalizeNewlines :: "string \<Rightarrow> string" where
  "normalizeNewlines [] = []"
| "normalizeNewlines [c] = [if c = CHR 0x0D then CHR 0x0A else c]"
| "normalizeNewlines (c # d # cs) =
     (if c = CHR 0x0D \<and> d = CHR 0x0A then CHR 0x0A # normalizeNewlines cs
      else (if c = CHR 0x0D then CHR 0x0A else c) # normalizeNewlines (d # cs))"

text \<open>
  Character references. Of the standard's table of named references the model has five
  rows. \<open>charRef\<close> is given the input after an ampersand and returns the text that goes
  into the attribute value and the number of characters it used. An ampersand that is not
  followed by a letter, a digit or \<^verbatim>\<open>#\<close> stands for itself. A name that ends in a semicolon
  and is in the table is decoded (no longer name can match, since names end at their
  semicolon). Every other reference, the numeric ones included, is outside the model.
\<close>

definition namedReferences :: "(string \<times> string) list" where
  "namedReferences =
     [(''amp;'', ''&''), (''lt;'', ''<''), (''gt;'', ''>''), (''quot;'', [CHR 0x22]),
      (''apos;'', [CHR 0x27])]"

definition charRef :: "string \<Rightarrow> parse_fail + (string \<times> nat)" where
  "charRef cs =
     (case cs of
        [] \<Rightarrow> Inr (''&'', 0)
      | c # _ \<Rightarrow>
          if c = CHR ''#'' then Inl ReferenceNotModelled
          else if is_alnum c then
            (case dropWhile is_alnum cs of
               [] \<Rightarrow> Inl ReferenceNotModelled
             | d # _ \<Rightarrow>
                 if d = CHR '';'' then
                   (case map_of namedReferences (takeWhile is_alnum cs @ '';'') of
                      None \<Rightarrow> Inl ReferenceNotModelled
                    | Some s \<Rightarrow> Inr (s, Suc (length (takeWhile is_alnum cs))))
                 else Inl ReferenceNotModelled)
          else Inr (''&'', 0))"

text \<open>
  One character of an attribute value, in the three value states alike: an ampersand
  starts a character reference, a NUL is replaced, anything else is itself. One character
  of a tag or attribute name: a NUL is replaced, a capital letter becomes small.
\<close>

definition valueChar :: "char \<Rightarrow> string \<Rightarrow> parse_fail + (string \<times> nat)" where
  "valueChar c cs =
     (if c = CHR ''&'' then charRef cs
      else if c = CHR 0x00 then Inr (replacement, 0)
      else Inr ([c], 0))"

definition nameChars :: "char \<Rightarrow> string" where
  "nameChars c = (if c = CHR 0x00 then replacement else [lower c])"

text \<open>
  The attributes of the tag being read, the latest first; the head is the attribute in
  progress.
\<close>

type_synonym attrs = "(string \<times> string) list"

fun addName :: "string \<Rightarrow> attrs \<Rightarrow> attrs" where
  "addName s [] = [(s, [])]"
| "addName s ((n, v) # as) = (n @ s, v) # as"

fun addValue :: "string \<Rightarrow> attrs \<Rightarrow> attrs" where
  "addValue s [] = [([], s)]"
| "addValue s ((n, v) # as) = (n, v @ s) # as"

definition newAttr :: "string \<Rightarrow> attrs \<Rightarrow> attrs" where
  "newAttr s as = (s, []) # as"

text \<open>
  The states: tag name, before attribute name, attribute name, after attribute name,
  before attribute value, attribute value (double-quoted), (single-quoted), (unquoted),
  after attribute value (quoted), self-closing start tag. \<open>tok\<close> returns the tag name and
  the attributes in the order of the markup, duplicates included.
\<close>

datatype tstate = TagName | BeforeAttrName | AttrName | AfterAttrName | BeforeAttrValue
  | ValueDQ | ValueSQ | ValueUnq | AfterValueQuoted | SelfClosing

fun tok :: "tstate \<Rightarrow> string \<Rightarrow> attrs \<Rightarrow> string \<Rightarrow> parse_fail + (string \<times> attrs)" where
  "tok st tn as [] = Inl EofInTag"
| "tok TagName tn as (c # cs) =
     (if is_space c then tok BeforeAttrName tn as cs
      else if c = CHR ''/'' then tok SelfClosing tn as cs
      else if c = CHR ''>'' then Inr (tn, rev as)
      else tok TagName (tn @ nameChars c) as cs)"
| "tok BeforeAttrName tn as (c # cs) =
     (if is_space c then tok BeforeAttrName tn as cs
      else if c = CHR ''/'' then tok SelfClosing tn as cs
      else if c = CHR ''>'' then Inr (tn, rev as)
      else if c = CHR ''='' then tok AttrName tn (newAttr ''='' as) cs
      else tok AttrName tn (newAttr (nameChars c) as) cs)"
| "tok AttrName tn as (c # cs) =
     (if is_space c then tok AfterAttrName tn as cs
      else if c = CHR ''/'' then tok SelfClosing tn as cs
      else if c = CHR ''>'' then Inr (tn, rev as)
      else if c = CHR ''='' then tok BeforeAttrValue tn as cs
      else tok AttrName tn (addName (nameChars c) as) cs)"
| "tok AfterAttrName tn as (c # cs) =
     (if is_space c then tok AfterAttrName tn as cs
      else if c = CHR ''/'' then tok SelfClosing tn as cs
      else if c = CHR ''='' then tok BeforeAttrValue tn as cs
      else if c = CHR ''>'' then Inr (tn, rev as)
      else tok AttrName tn (newAttr (nameChars c) as) cs)"
| "tok BeforeAttrValue tn as (c # cs) =
     (if is_space c then tok BeforeAttrValue tn as cs
      else if c = CHR 0x22 then tok ValueDQ tn as cs
      else if c = CHR 0x27 then tok ValueSQ tn as cs
      else if c = CHR ''>'' then Inr (tn, rev as)
      else (case valueChar c cs of
              Inl f \<Rightarrow> Inl f
            | Inr (s, k) \<Rightarrow> tok ValueUnq tn (addValue s as) (drop k cs)))"
| "tok ValueDQ tn as (c # cs) =
     (if c = CHR 0x22 then tok AfterValueQuoted tn as cs
      else (case valueChar c cs of
              Inl f \<Rightarrow> Inl f
            | Inr (s, k) \<Rightarrow> tok ValueDQ tn (addValue s as) (drop k cs)))"
| "tok ValueSQ tn as (c # cs) =
     (if c = CHR 0x27 then tok AfterValueQuoted tn as cs
      else (case valueChar c cs of
              Inl f \<Rightarrow> Inl f
            | Inr (s, k) \<Rightarrow> tok ValueSQ tn (addValue s as) (drop k cs)))"
| "tok ValueUnq tn as (c # cs) =
     (if is_space c then tok BeforeAttrName tn as cs
      else if c = CHR ''>'' then Inr (tn, rev as)
      else (case valueChar c cs of
              Inl f \<Rightarrow> Inl f
            | Inr (s, k) \<Rightarrow> tok ValueUnq tn (addValue s as) (drop k cs)))"
| "tok AfterValueQuoted tn as (c # cs) =
     (if is_space c then tok BeforeAttrName tn as cs
      else if c = CHR ''/'' then tok SelfClosing tn as cs
      else if c = CHR ''>'' then Inr (tn, rev as)
      else if c = CHR ''='' then tok AttrName tn (newAttr ''='' as) cs
      else tok AttrName tn (newAttr (nameChars c) as) cs)"
| "tok SelfClosing tn as (c # cs) =
     (if c = CHR ''>'' then Inr (tn, rev as)
      else if is_space c then tok BeforeAttrName tn as cs
      else if c = CHR ''/'' then tok SelfClosing tn as cs
      else if c = CHR ''='' then tok AttrName tn (newAttr ''='' as) cs
      else tok AttrName tn (newAttr (nameChars c) as) cs)"

text \<open>The first tag of the markup: \<^verbatim>\<open><\<close>, a letter, and the states above.\<close>

definition parseStartTag :: "string \<Rightarrow> parse_fail + (string \<times> attrs)" where
  "parseStartTag s =
     (case normalizeNewlines s of
        c # d # cs \<Rightarrow>
          if c = CHR ''<'' \<and> is_letter d then tok TagName (nameChars d) [] cs
          else Inl NotAStartTag
      | _ \<Rightarrow> Inl NotAStartTag)"

text \<open>
  The element of a tag. An attribute that occurs twice keeps its first value (the standard
  drops the later ones), which is what \<open>map_of\<close> returns; an attribute that does not
  occur is \<open>None\<close>. \<open>onerror\<close> holds the text of the handler, or \<open>None\<close> when there is no
  handler.
\<close>

record img_element =
  localName :: string
  src :: "string option"
  alt :: "string option"
  className :: "string option"
  onerror :: "string option"

definition elementOf :: "string \<times> attrs \<Rightarrow> img_element" where
  "elementOf t =
     \<lparr>localName = fst t, src = map_of (snd t) ''src'', alt = map_of (snd t) ''alt'',
      className = map_of (snd t) ''class'', onerror = map_of (snd t) ''onerror''\<rparr>"

definition parseElement :: "string \<Rightarrow> parse_fail + img_element" where
  "parseElement s = (case parseStartTag s of Inl f \<Rightarrow> Inl f | Inr t \<Rightarrow> Inr (elementOf t))"

subsection \<open>The error handler of the image\<close>
















subsection \<open>The product card\<close>

text \<open>
  A rendered fragment: the product card. Of the card the source shows the image markup
  only: \<open>innerHTML\<close> is that markup and \<open>image\<close> the element that the browser reads from
  it. \<open>dataId\<close> is the \<^verbatim>\<open>data-id\<close> of the card's edit and delete buttons, which the click
  handler reads as \<^verbatim>\<open>e.target.dataset.id\<close>; the markup of the buttons is not in the source,
  and the spec has the identifier "sourced from attached data on the originating element".
\<close>

record fragment =
  dataId :: string
  innerHTML :: string
  image :: "parse_fail + img_element"

definition imgElement :: "(string \<Rightarrow> bool) \<Rightarrow> product \<Rightarrow> parse_fail + img_element" where
  "imgElement valid p = parseElement (imgMarkup (resolveImageUrl valid p) (altText p))"

definition productCard :: "(string \<Rightarrow> bool) \<Rightarrow> product \<Rightarrow> fragment" where
  "productCard valid p =
     \<lparr>dataId = id_p p,
      innerHTML = imgMarkup (resolveImageUrl valid p) (altText p),
      image = imgElement valid p\<rparr>"

section \<open>The page state and its operations\<close>

text \<open>
  What the handlers read and write: the global \<^verbatim>\<open>products\<close>, the label of
  \<^verbatim>\<open>saveProductBtn\<close>, the value of \<^verbatim>\<open>filterCategorySelect\<close>, the record handed to the
  form, the display surface, and a trace of the calls to the collaborators
  (\<^verbatim>\<open>showNotification\<close>, \<^verbatim>\<open>renderProducts\<close>) in the order they are made.
\<close>

datatype effect = Notify string string | Render "string option"

record page =
  products :: "product list"
  saveProductBtnText :: string
  filterCategoryValue :: string
  productToEdit :: "product option"
  surface :: "fragment list"
  trace :: "effect list"

text \<open>
  Modelled from the spec: the body of \<^verbatim>\<open>renderProducts\<close> around the two lines the fragment
  shows (the choice of the products to render and the replacement of the display surface)
  is missing from the source. The spec: an optional category key, and "when empty/absent,
  no filtering is applied"; "one per product whose \<^verbatim>\<open>categoryId\<close> matches the filter (or all
  products when unfiltered), preserving collection order"; the call "replaces the rendered
  contents of a target display surface with the newly produced fragments".
\<close>

definition matchesFilter :: "string option \<Rightarrow> product \<Rightarrow> bool" where
  "matchesFilter categoryFilter p =
     (case categoryFilter of
        None \<Rightarrow> True
      | Some c \<Rightarrow> if truthy (Some c) then categoryId p = c else True)"

text \<open>
  Modelled from the spec: the fragments of a render, "one per product whose \<^verbatim>\<open>categoryId\<close>
  matches the filter (or all products when unfiltered), preserving collection order".
\<close>

definition fragments :: "(string \<Rightarrow> bool) \<Rightarrow> string option \<Rightarrow> product list \<Rightarrow> fragment list" where
  "fragments valid categoryFilter ps =
     map (productCard valid) (filter (matchesFilter categoryFilter) ps)"

text \<open>
  Modelled from the spec: \<^verbatim>\<open>renderProducts\<close> as a whole, which "replaces the rendered
  contents of a target display surface with the newly produced fragments". The call is
  recorded in the trace.
\<close>

definition renderProducts :: "(string \<Rightarrow> bool) \<Rightarrow> string option \<Rightarrow> page \<Rightarrow> page" where
  "renderProducts valid categoryFilter st =
     st\<lparr>surface := fragments valid categoryFilter (products st),
        trace := trace st @ [Render categoryFilter]\<rparr>"

text \<open>
  The edit branch: \<^verbatim>\<open>products.find(p => p.id === productId)\<close>, the elided population of
  the form (the record found, or \<^verbatim>\<open>undefined\<close>, is what it is given), then the assignment of
  the label, which no test guards.
\<close>

definition handleEditIntent :: "string \<Rightarrow> page \<Rightarrow> page" where
  "handleEditIntent productId st =
     st\<lparr>productToEdit := find (\<lambda>p. id_p p = productId) (products st),
        saveProductBtnText := ''Update Product''\<rparr>"

text \<open>
  The delete branch. \<open>answer\<close> is what \<^verbatim>\<open>confirm(...)\<close> returns: true when the user accepts,
  false when the user declines or dismisses the prompt.
\<close>

definition showNotification :: "string \<Rightarrow> string \<Rightarrow> page \<Rightarrow> page" where
  "showNotification message severity st = st\<lparr>trace := trace st @ [Notify message severity]\<rparr>"

definition handleDeleteIntent :: "(string \<Rightarrow> bool) \<Rightarrow> bool \<Rightarrow> string \<Rightarrow> page \<Rightarrow> page" where
  "handleDeleteIntent valid answer productId st =
     (if answer then
        (let st1 = st\<lparr>products := filter (\<lambda>p. id_p p \<noteq> productId) (products st)\<rparr>;
             st2 = showNotification ''Product deleted successfully!'' ''success'' st1
         in renderProducts valid (Some (filterCategoryValue st2)) st2)
      else st)"

text \<open>The click handler: the class of the target chooses the branch.\<close>

record target =
  classList :: "string list"
  dataset_id :: string

definition onClick :: "(string \<Rightarrow> bool) \<Rightarrow> bool \<Rightarrow> target \<Rightarrow> page \<Rightarrow> page" where
  "onClick valid answer t st =
     (if ''edit-product-btn'' \<in> set (classList t) then handleEditIntent (dataset_id t) st
      else if ''delete-product-btn'' \<in> set (classList t)
        then handleDeleteIntent valid answer (dataset_id t) st
      else st)"

text \<open>
  The array of the source, with its one product, and the page before its first render:
  the submit control is in create mode, no category is selected.
\<close>

definition dress :: product where
  "dress =
     \<lparr>id_p = ''prod-dress-001'', name = Some ''Summer Floral Dress'',
      categoryId = ''cat-dresses'', price = 3500,
      imageUrl = Some ''https://placehold.co/300x200/4CAF50/FFFFFF?text=Floral+Dress'',
      attributes = [(''Style'', ''A-Line''), (''Material'', ''Cotton''),
                    (''Length'', ''Knee-length'')]\<rparr>"

definition page0 :: page where
  "page0 =
     \<lparr>products = [dress], saveProductBtnText = ''Save'', filterCategoryValue = [],
      productToEdit = None, surface = [], trace = []\<rparr>"









section \<open>The expression decides its language\<close>

lemma lang_plus_r: "lang (plus_r r s) = lang r \<union> lang s"
  by (induction r s rule: plus_r.induct) auto

lemma conc_empty: "conc {} B = {}" "conc A {} = {}"
  by (auto simp: conc_def)

lemma conc_unit: "conc {[]} B = B" "conc A {[]} = A"
  by (auto simp: conc_def)

lemma lang_times_r: "lang (times_r r s) = conc (lang r) (lang s)"
  by (induction r s rule: times_r.induct) (simp_all add: conc_empty conc_unit)

lemma nullable_iff: "nullable r \<longleftrightarrow> [] \<in> lang r"
  by (induction r) (auto simp: conc_def intro: star.intros)

lemma star_cons:
  "c # w \<in> star A \<longleftrightarrow> (\<exists>u v. w = u @ v \<and> c # u \<in> A \<and> v \<in> star A)"
proof
  assume "c # w \<in> star A"
  then show "\<exists>u v. w = u @ v \<and> c # u \<in> A \<and> v \<in> star A"
  proof (induction "c # w" arbitrary: w rule: star.induct)
    case (star_step u v)
    show ?case
    proof (cases u)
      case Nil
      with star_step show ?thesis by simp
    next
      case (Cons a u')
      with star_step show ?thesis by auto
    qed
  qed
next
  assume "\<exists>u v. w = u @ v \<and> c # u \<in> A \<and> v \<in> star A"
  then obtain u v where "w = u @ v" "c # u \<in> A" "v \<in> star A" by blast
  then show "c # w \<in> star A"
    using star.star_step[of "c # u" A v] by simp
qed

lemma conc_cons:
  "c # w \<in> conc A B \<longleftrightarrow>
     (\<exists>u v. w = u @ v \<and> c # u \<in> A \<and> v \<in> B) \<or> ([] \<in> A \<and> c # w \<in> B)"
  by (auto simp: conc_def Cons_eq_append_conv) 

lemma lang_deriv: "lang (deriv c r) = {w. c # w \<in> lang r}"
proof (induction r)
  case (Times r s)
  then show ?case
    by (auto simp: lang_plus_r lang_times_r nullable_iff conc_cons) (auto simp: conc_def)
next
  case (Star r)
  then show ?case
    by (auto simp: lang_times_r star_cons) (auto simp: conc_def)
qed (auto simp: lang_plus_r)

lemma matches_lang: "matches r s \<longleftrightarrow> s \<in> lang r"
  by (induction s arbitrary: r) (simp_all add: nullable_iff lang_deriv)









lemma example_url_valid: "isValidUrl ''https://example.com/a.png''"
  by code_simp

lemma not_a_url_invalid: "\<not> isValidUrl ''not a url''"
  by code_simp




lemma more_urls:
  "isValidUrl ''foo:''" "\<not> isValidUrl ''http://[''" "\<not> isValidUrl ''a:%zz''"
  "isValidUrl ''http://[::1]:8080/a?b#c''"
  by code_simp+

text \<open>
  C8 (against the model of \<^verbatim>\<open>isValidUrl\<close> above). For every string the validator returns a
  boolean, and it returns \<open>True\<close> exactly when the string belongs to the language of the
  rule \<^verbatim>\<open>URI\<close> of RFC 3986: a string that is not a URI gives \<open>False\<close>, and nothing else
  happens. The validator is a total function: it runs through the string once.
\<close>

theorem isValidUrl_decides: "isValidUrl s \<longleftrightarrow> s \<in> lang URI"
  by (simp add: isValidUrl_def matches_lang)

theorem isValidUrl_decides_witness:
  "isValidUrl ''https://example.com/a.png'' \<and> ''https://example.com/a.png'' \<in> lang URI \<and>
   \<not> isValidUrl ''not a url'' \<and> ''not a url'' \<notin> lang URI \<and>
   ''foo:'' \<in> lang URI \<and> ''http://['' \<notin> lang URI \<and> ''a:%zz'' \<notin> lang URI"
  using example_url_valid not_a_url_invalid more_urls(1,2,3)
    isValidUrl_decides[of "''https://example.com/a.png''"]
    isValidUrl_decides[of "''not a url''"] isValidUrl_decides[of "''foo:''"]
    isValidUrl_decides[of "''http://[''"] isValidUrl_decides[of "''a:%zz''"]
  by blast

section \<open>How the markup of a card parses\<close>

































section \<open>The image of a product card\<close>














section \<open>The error handler of the image\<close>








section \<open>Rendering the collection\<close>

lemma fragments_unfiltered: "fragments valid None ps = map (productCard valid) ps"
  by (simp add: fragments_def matchesFilter_def)

lemma fragments_empty_filter: "fragments valid (Some []) ps = map (productCard valid) ps"
  by (simp add: fragments_def matchesFilter_def)

lemma fragments_filtered:
  "c \<noteq> [] \<Longrightarrow>
   fragments valid (Some c) ps = map (productCard valid) (filter (\<lambda>p. categoryId p = c) ps)"
proof -
  assume "c \<noteq> []"
  then have "matchesFilter (Some c) = (\<lambda>p. categoryId p = c)"
    by (intro ext) (simp add: matchesFilter_def)
  then show ?thesis
    by (simp add: fragments_def)
qed

lemma dataId_productCard: "dataId \<circ> productCard valid = id_p"
  by (rule ext) (simp add: productCard_def)

lemma count_ids:
  "length (filter (\<lambda>f. dataId f = i) (map (productCard valid) qs)) =
   length (filter (\<lambda>p. id_p p = i) qs)"
  by (induction qs) (simp_all add: productCard_def)

lemma distinct_ids_once:
  "distinct (map id_p ps) \<Longrightarrow> p \<in> set ps \<Longrightarrow> length (filter (\<lambda>q. id_p q = id_p p) ps) = 1"
proof (induction ps)
  case Nil
  then show ?case by simp
next
  case (Cons a ps)
  show ?case
  proof (cases "id_p a = id_p p")
    case True
    then have "id_p p \<notin> id_p ` set ps"
      using Cons.prems(1) by simp
    then have "\<forall>q \<in> set ps. id_p q \<noteq> id_p p"
      by (metis imageI)
    then have "filter (\<lambda>q. id_p q = id_p p) ps = []"
      by (simp add: filter_empty_conv)
    then show ?thesis using True by simp
  next
    case False
    then have "p \<in> set ps" using Cons.prems(2) by auto
    then show ?thesis using Cons False by simp
  qed
qed

text \<open>
  C6 (against the model of \<^verbatim>\<open>renderProducts\<close> above). With no filter, or an empty one,
  there is one fragment per product, in collection order. With a non-empty filter \<open>c\<close>
  the fragments are the cards of the products whose \<^verbatim>\<open>categoryId\<close> is \<open>c\<close>, in collection
  order: every fragment is the card of such a product, for every identifier there are as
  many fragments as products of the category with that identifier, and exactly one when
  identifiers are unique. A render puts these fragments on the surface.
\<close>

theorem render_fragments:
  "fragments valid None ps = map (productCard valid) ps \<and>
   fragments valid (Some []) ps = map (productCard valid) ps \<and>
   length (fragments valid None ps) = length ps \<and>
   map dataId (fragments valid None ps) = map id_p ps \<and>
   (c \<noteq> [] \<longrightarrow>
      fragments valid (Some c) ps =
        map (productCard valid) (filter (\<lambda>p. categoryId p = c) ps) \<and>
      map dataId (fragments valid (Some c) ps) =
        map id_p (filter (\<lambda>p. categoryId p = c) ps) \<and>
      subseq (map dataId (fragments valid (Some c) ps)) (map id_p ps) \<and>
      (\<forall>f \<in> set (fragments valid (Some c) ps).
         \<exists>p \<in> set ps. categoryId p = c \<and> f = productCard valid p) \<and>
      (\<forall>i. length (filter (\<lambda>f. dataId f = i) (fragments valid (Some c) ps)) =
           length (filter (\<lambda>p. categoryId p = c \<and> id_p p = i) ps)) \<and>
      (distinct (map id_p ps) \<longrightarrow>
         (\<forall>p \<in> set ps. categoryId p = c \<longrightarrow>
            length (filter (\<lambda>f. dataId f = id_p p) (fragments valid (Some c) ps)) = 1))) \<and>
   surface (renderProducts valid flt st) = fragments valid flt (products st)"
proof -
  have none: "map dataId (fragments valid None ps) = map id_p ps"
    by (simp add: fragments_unfiltered dataId_productCard)
  have surf: "surface (renderProducts valid flt st) = fragments valid flt (products st)"
    by (simp add: renderProducts_def)
  have filtered: "c \<noteq> [] \<longrightarrow>
      fragments valid (Some c) ps =
        map (productCard valid) (filter (\<lambda>p. categoryId p = c) ps) \<and>
      map dataId (fragments valid (Some c) ps) =
        map id_p (filter (\<lambda>p. categoryId p = c) ps) \<and>
      subseq (map dataId (fragments valid (Some c) ps)) (map id_p ps) \<and>
      (\<forall>f \<in> set (fragments valid (Some c) ps).
         \<exists>p \<in> set ps. categoryId p = c \<and> f = productCard valid p) \<and>
      (\<forall>i. length (filter (\<lambda>f. dataId f = i) (fragments valid (Some c) ps)) =
           length (filter (\<lambda>p. categoryId p = c \<and> id_p p = i) ps)) \<and>
      (distinct (map id_p ps) \<longrightarrow>
         (\<forall>p \<in> set ps. categoryId p = c \<longrightarrow>
            length (filter (\<lambda>f. dataId f = id_p p) (fragments valid (Some c) ps)) = 1))"
  proof
    assume c: "c \<noteq> []"
    let ?qs = "filter (\<lambda>p. categoryId p = c) ps"
    have eq: "fragments valid (Some c) ps = map (productCard valid) ?qs"
      using c by (rule fragments_filtered)
    have ids: "map dataId (fragments valid (Some c) ps) = map id_p ?qs"
      by (simp add: eq dataId_productCard)
    have sub: "subseq (map dataId (fragments valid (Some c) ps)) (map id_p ps)"
      unfolding ids by (rule subseq_map) simp
    have each: "\<forall>f \<in> set (fragments valid (Some c) ps).
         \<exists>p \<in> set ps. categoryId p = c \<and> f = productCard valid p"
      unfolding eq by auto
    have cnt: "\<forall>i. length (filter (\<lambda>f. dataId f = i) (fragments valid (Some c) ps)) =
           length (filter (\<lambda>p. categoryId p = c \<and> id_p p = i) ps)"
      unfolding eq count_ids by simp
    have once: "distinct (map id_p ps) \<longrightarrow>
         (\<forall>p \<in> set ps. categoryId p = c \<longrightarrow>
            length (filter (\<lambda>f. dataId f = id_p p) (fragments valid (Some c) ps)) = 1)"
    proof (intro impI ballI)
      fix p
      assume d: "distinct (map id_p ps)" and p: "p \<in> set ps" and pc: "categoryId p = c"
      have dq: "distinct (map id_p ?qs)"
        using d by (rule distinct_map_filter)
      have "p \<in> set ?qs" using p pc by simp
      with dq have "length (filter (\<lambda>q. id_p q = id_p p) ?qs) = 1"
        by (rule distinct_ids_once)
      then show "length (filter (\<lambda>f. dataId f = id_p p) (fragments valid (Some c) ps)) = 1"
        unfolding eq count_ids .
    qed
    from eq ids sub each cnt once
    show "fragments valid (Some c) ps =
        map (productCard valid) (filter (\<lambda>p. categoryId p = c) ps) \<and>
      map dataId (fragments valid (Some c) ps) =
        map id_p (filter (\<lambda>p. categoryId p = c) ps) \<and>
      subseq (map dataId (fragments valid (Some c) ps)) (map id_p ps) \<and>
      (\<forall>f \<in> set (fragments valid (Some c) ps).
         \<exists>p \<in> set ps. categoryId p = c \<and> f = productCard valid p) \<and>
      (\<forall>i. length (filter (\<lambda>f. dataId f = i) (fragments valid (Some c) ps)) =
           length (filter (\<lambda>p. categoryId p = c \<and> id_p p = i) ps)) \<and>
      (distinct (map id_p ps) \<longrightarrow>
         (\<forall>p \<in> set ps. categoryId p = c \<longrightarrow>
            length (filter (\<lambda>f. dataId f = id_p p) (fragments valid (Some c) ps)) = 1))"
      by blast
  qed
  have len: "length (fragments valid None ps) = length ps"
    by (simp add: fragments_unfiltered)
  from fragments_unfiltered[of valid ps] fragments_empty_filter[of valid ps] len none
    filtered surf
  show ?thesis by blast
qed

theorem render_fragments_witness:
  "''cat-dresses'' \<noteq> [] \<and>
   distinct (map id_p [dress, dress\<lparr>id_p := ''prod-shoe-002'', categoryId := ''cat-shoes''\<rparr>]) \<and>
   fragments isValidUrl (Some ''cat-dresses'')
       [dress, dress\<lparr>id_p := ''prod-shoe-002'', categoryId := ''cat-shoes''\<rparr>] =
     [productCard isValidUrl dress] \<and>
   length (filter (\<lambda>f. dataId f = ''prod-dress-001'')
     (fragments isValidUrl (Some ''cat-dresses'')
        [dress, dress\<lparr>id_p := ''prod-shoe-002'', categoryId := ''cat-shoes''\<rparr>])) = 1 \<and>
   length (filter (\<lambda>f. dataId f = ''prod-shoe-002'')
     (fragments isValidUrl (Some ''cat-dresses'')
        [dress, dress\<lparr>id_p := ''prod-shoe-002'', categoryId := ''cat-shoes''\<rparr>])) = 0"
proof -
  let ?shoe = "dress\<lparr>id_p := ''prod-shoe-002'', categoryId := ''cat-shoes''\<rparr>"
  let ?ps = "[dress, ?shoe]"
  note R = render_fragments[of isValidUrl ?ps "''cat-dresses''"]
  have c: "''cat-dresses'' \<noteq> []" by simp
  have d: "distinct (map id_p ?ps)" by (simp add: dress_def)
  have cat: "categoryId dress = ''cat-dresses''" "id_p dress = ''prod-dress-001''"
    by (simp_all add: dress_def)
  have sel: "filter (\<lambda>p. categoryId p = ''cat-dresses'') ?ps = [dress]"
    by (simp add: dress_def)
  have eq: "fragments isValidUrl (Some ''cat-dresses'') ?ps = [productCard isValidUrl dress]"
  proof -
    from R c have "fragments isValidUrl (Some ''cat-dresses'') ?ps =
        map (productCard isValidUrl) (filter (\<lambda>p. categoryId p = ''cat-dresses'') ?ps)"
      by blast
    then show ?thesis
      unfolding sel by simp
  qed
  have "\<forall>p \<in> set ?ps. categoryId p = ''cat-dresses'' \<longrightarrow>
      length (filter (\<lambda>f. dataId f = id_p p)
        (fragments isValidUrl (Some ''cat-dresses'') ?ps)) = 1"
    using R c d by blast
  then have once: "length (filter (\<lambda>f. dataId f = ''prod-dress-001'')
      (fragments isValidUrl (Some ''cat-dresses'') ?ps)) = 1"
    using cat by simp
  have never: "length (filter (\<lambda>f. dataId f = ''prod-shoe-002'')
      (fragments isValidUrl (Some ''cat-dresses'') ?ps)) = 0"
    unfolding eq by (simp add: productCard_def dress_def)
  from c d eq once never show ?thesis by blast
qed

text \<open>
  C9 (against the model of \<^verbatim>\<open>renderProducts\<close> above). A second render with the same
  filter, with no change of the collection in between, shows the same fragments as the
  first: a render does not change the collection, and what it shows is a function of the
  collection and the filter only.
\<close>

theorem render_idempotent:
  "surface (renderProducts valid c (renderProducts valid c st)) =
     surface (renderProducts valid c st) \<and>
   products (renderProducts valid c st) = products st \<and>
   surface (renderProducts valid c st) = fragments valid c (products st)"
  by (simp add: renderProducts_def)

section \<open>Deleting a product\<close>

lemma onClick_edit:
  "''edit-product-btn'' \<in> set (classList t) \<Longrightarrow>
   onClick valid answer t st = handleEditIntent (dataset_id t) st"
  by (simp add: onClick_def)

lemma onClick_delete:
  "''edit-product-btn'' \<notin> set (classList t) \<Longrightarrow> ''delete-product-btn'' \<in> set (classList t) \<Longrightarrow>
   onClick valid answer t st = handleDeleteIntent valid answer (dataset_id t) st"
  by (simp add: onClick_def)

lemma delete_dress:
  "products (handleDeleteIntent valid True ''prod-dress-001'' page0) = [] \<and>
   surface (handleDeleteIntent valid True ''prod-dress-001'' page0) = [] \<and>
   handleDeleteIntent valid False ''prod-dress-001'' page0 = page0"
  by (simp add: handleDeleteIntent_def renderProducts_def showNotification_def Let_def
      fragments_def page0_def dress_def)

text \<open>
  C1. For every page state and every product identifier, a delete that the user confirms
  leaves exactly the products whose \<^verbatim>\<open>id\<close> differs from the identifier, in their order
  (every product with that \<^verbatim>\<open>id\<close> is removed); it makes one call of \<^verbatim>\<open>showNotification\<close>,
  with the success message, and then one call of \<^verbatim>\<open>renderProducts\<close> with the value of the
  category filter, after which the surface shows the new collection under that filter.
\<close>

theorem delete_confirmed:
  "products (handleDeleteIntent valid True productId st) =
     filter (\<lambda>p. id_p p \<noteq> productId) (products st) \<and>
   set (products (handleDeleteIntent valid True productId st)) =
     {p \<in> set (products st). id_p p \<noteq> productId} \<and>
   trace (handleDeleteIntent valid True productId st) =
     trace st @ [Notify ''Product deleted successfully!'' ''success'',
                 Render (Some (filterCategoryValue st))] \<and>
   surface (handleDeleteIntent valid True productId st) =
     fragments valid (Some (filterCategoryValue st))
       (products (handleDeleteIntent valid True productId st))"
  by (simp add: handleDeleteIntent_def renderProducts_def showNotification_def Let_def)

text \<open>
  C2. For every page state and every product identifier, a delete that the user declines
  or dismisses returns the state it was given: the collection, the trace (no
  notification, no render) and the surface are the same.
\<close>

theorem delete_declined:
  "handleDeleteIntent valid False productId st = st"
  by (simp add: handleDeleteIntent_def)

text \<open>
  C10. When no product has the identifier, a confirmed delete leaves the collection as it
  was, and still notifies and renders: the two calls do not depend on anything having
  been removed. In every case the products with another \<^verbatim>\<open>id\<close> are kept, in their order.
\<close>

theorem delete_missing_id:
  assumes "productId \<notin> id_p ` set (products st)"
  shows "products (handleDeleteIntent valid True productId st) = products st \<and>
         trace (handleDeleteIntent valid True productId st) =
           trace st @ [Notify ''Product deleted successfully!'' ''success'',
                       Render (Some (filterCategoryValue st))] \<and>
         surface (handleDeleteIntent valid True productId st) =
           fragments valid (Some (filterCategoryValue st)) (products st) \<and>
         filter (\<lambda>p. id_p p \<noteq> other) (products (handleDeleteIntent valid True other st)) =
           filter (\<lambda>p. id_p p \<noteq> other) (products st)"
proof -
  have keep: "filter (\<lambda>p. id_p p \<noteq> productId) (products st) = products st"
    using assms by (auto simp: filter_id_conv)
  have unfolded: "handleDeleteIntent valid True productId st =
      st\<lparr>products := products st,
         trace := trace st @ [Notify ''Product deleted successfully!'' ''success'',
                              Render (Some (filterCategoryValue st))],
         surface := fragments valid (Some (filterCategoryValue st)) (products st)\<rparr>"
    using keep
    by (simp add: handleDeleteIntent_def renderProducts_def showNotification_def Let_def)
  have others: "filter (\<lambda>p. id_p p \<noteq> other)
        (products (handleDeleteIntent valid True other st)) =
      filter (\<lambda>p. id_p p \<noteq> other) (products st)"
    by (simp add: handleDeleteIntent_def renderProducts_def showNotification_def Let_def)
  show ?thesis
    using others by (simp add: unfolded)
qed

theorem delete_missing_id_witness:
  "''prod-missing'' \<notin> id_p ` set (products page0) \<and>
   products (handleDeleteIntent isValidUrl True ''prod-missing'' page0) = [dress] \<and>
   trace (handleDeleteIntent isValidUrl True ''prod-missing'' page0) =
     [Notify ''Product deleted successfully!'' ''success'', Render (Some [])]"
proof -
  have h: "''prod-missing'' \<notin> id_p ` set (products page0)"
    by (simp add: page0_def dress_def)
  show ?thesis
    using h delete_missing_id[OF h, of isValidUrl]
    by (simp add: page0_def)
qed

section \<open>Editing a product\<close>

text \<open>
  C3, as the code has it. For every page state and every identifier that no product of
  the collection has, the edit branch leaves the collection unchanged and finds no record
  for the form; the label of the submit control is assigned without a test, so it reads
  \<^verbatim>\<open>Update Product\<close> afterwards, whatever it read before.
\<close>

theorem edit_missing_id:
  assumes "productId \<notin> id_p ` set (products st)"
  shows "products (handleEditIntent productId st) = products st \<and>
         productToEdit (handleEditIntent productId st) = None \<and>
         saveProductBtnText (handleEditIntent productId st) = ''Update Product''"
proof -
  have "\<not> (\<exists>p. p \<in> set (products st) \<and> id_p p = productId)"
    using assms by auto
  then have "find (\<lambda>p. id_p p = productId) (products st) = None"
    by (simp add: find_None_iff)
  then show ?thesis
    by (simp add: handleEditIntent_def)
qed

theorem edit_missing_id_witness:
  "''prod-missing'' \<notin> id_p ` set (products page0) \<and>
   products (handleEditIntent ''prod-missing'' page0) = [dress] \<and>
   productToEdit (handleEditIntent ''prod-missing'' page0) = None \<and>
   saveProductBtnText (handleEditIntent ''prod-missing'' page0) = ''Update Product''"
proof -
  have h: "''prod-missing'' \<notin> id_p ` set (products page0)"
    by (simp add: page0_def dress_def)
  show ?thesis
    using h edit_missing_id[OF h]
    by (simp add: page0_def)
qed

text \<open>
  The claim as the spec states it fails: on the page of the source, whose label reads
  \<^verbatim>\<open>Save\<close>, an edit of an identifier that no product has changes the label.
\<close>

theorem edit_missing_id_changes_label:
  "''prod-missing'' \<notin> id_p ` set (products page0) \<and>
   saveProductBtnText (handleEditIntent ''prod-missing'' page0) \<noteq> saveProductBtnText page0"
  by (simp add: handleEditIntent_def page0_def dress_def)

end
